theory Spec2Isabelle
  imports Complex_Main "HOL-Library.Sublist"
begin

section \<open>Strings of the source language\<close>

text \<open>
  Python strings are sequences of code points. They are modelled as \<open>string\<close> with one
  \<open>char\<close> per code point, so the texts of this development range over the code points
  0..255 (Latin-1), which hold every character of the keyword tables of the source.
  Floats are modelled as rationals; timestamps are integers read from the clock by the
  caller.
\<close>

definition isspace :: "char \<Rightarrow> bool" where
  \<comment> \<open>the code points below 256 that \<open>str.isspace\<close>, \<open>str.split\<close> and \<open>str.strip\<close> treat as whitespace\<close>
  "isspace c = ((of_char c :: nat) \<in> {9, 10, 11, 12, 13, 28, 29, 30, 31, 32, 133, 160})"

definition lower_char :: "char \<Rightarrow> char" where
  \<comment> \<open>\<open>str.lower\<close> on one code point below 256: A-Z and the accented capitals move up by 32\<close>
  "lower_char c =
     (let n = (of_char c :: nat)
      in if (65 \<le> n \<and> n \<le> 90) \<or> (192 \<le> n \<and> n \<le> 214) \<or> (216 \<le> n \<and> n \<le> 222)
         then char_of (n + 32) else c)"

definition lower :: "string \<Rightarrow> string" where
  "lower s = map lower_char s"

definition strip :: "string \<Rightarrow> string" where
  "strip s = rev (dropWhile isspace (rev (dropWhile isspace s)))"

text \<open>\<open>str.split()\<close> with no argument: the maximal runs of non-whitespace, \<open>cur\<close> the run being read.\<close>

fun split_acc :: "string \<Rightarrow> string \<Rightarrow> string list" where
  "split_acc cur [] = (if cur = [] then [] else [cur])"
| "split_acc cur (c # cs) =
     (if isspace c then (if cur = [] then split_acc [] cs else cur # split_acc [] cs)
      else split_acc (cur @ [c]) cs)"

definition split :: "string \<Rightarrow> string list" where
  "split s = split_acc [] s"

fun startswith :: "string \<Rightarrow> string \<Rightarrow> bool" where
  "startswith s [] = True"
| "startswith [] (p # ps) = False"
| "startswith (c # cs) (p # ps) = (c = p \<and> startswith cs ps)"

text \<open>\<open>sub in s\<close>: \<open>sub\<close> occurs in \<open>s\<close> as a contiguous substring.\<close>

fun contains :: "string \<Rightarrow> string \<Rightarrow> bool" where
  "contains [] sub = (sub = [])"
| "contains (c # cs) sub = (startswith (c # cs) sub \<or> contains cs sub)"

text \<open>\<open>s.count(sub)\<close>: the number of non-overlapping occurrences, read from the left.\<close>

function count :: "string \<Rightarrow> string \<Rightarrow> nat" where
  "count s sub =
     (if sub = [] then length s + 1
      else if s = [] then 0
      else if startswith s sub then 1 + count (drop (length sub) s) sub
      else count (tl s) sub)"
  by pat_completeness auto
termination
  by (relation "measure (\<lambda>(s, sub). length s)") auto

fun join :: "string \<Rightarrow> string list \<Rightarrow> string" where
  "join sep [] = []"
| "join sep [x] = x"
| "join sep (x # y # xs) = x @ sep @ join sep (y # xs)"

definition digit_char :: "nat \<Rightarrow> char" where
  "digit_char d = char_of (48 + d)"

text \<open>\<open>str(n)\<close> for a non-negative integer.\<close>

function str_of_nat :: "nat \<Rightarrow> string" where
  "str_of_nat n = (if n < 10 then [digit_char n] else str_of_nat (n div 10) @ [digit_char (n mod 10)])"
  by pat_completeness auto
termination
  by (relation "measure id") auto

section \<open>Data model (src/models/enums.py, src/models/schemas.py)\<close>

text \<open>
  Classes are records and enums are datatypes. The field names of all records share one
  name space, so the fields of the chain outputs, of \<open>ProcessedNews\<close>, of the market
  records and of the cost records carry a prefix; \<open>RawNews\<close> and \<open>GateCheckResult\<close> keep
  the names of the source where they do not collide. The \<open>date_partition\<close> fields, which
  the schema derives from a timestamp of the same record, are left out.
\<close>

datatype GateResult = PASS | FAIL

datatype RankingCategory = IRRELEVANT | LOW | MODERATE | HIGH | CRITICAL

datatype ProcessingStage = SUMMARIZATION | TOPIC_EXTRACTION | IMPACT_ANALYSIS | RANKING

datatype ImpactDirection = POSITIVE | NEGATIVE | NEUTRAL

datatype TimeHorizon = SHORT_TERM | MEDIUM_TERM | LONG_TERM

datatype TopicCategory = ECONOMY | POLITICS | SECURITY | ENERGY | INTERNATIONAL | MONETARY | OTHER

datatype MarketTier = TIER_CRITICAL | TIER_IMPORTANT | TIER_CONTEXT

datatype TraderAction = MONITOR | ALERT | URGENT

datatype py_error =
  TransportError | JSONDecodeError | ValueError | ValidationError | ZeroDivisionError

text \<open>
  Calling an enum class on a value looks the value up among the members and raises
  ValueError when there is none: \<open>None\<close> stands for the raise.
\<close>

definition TopicCategory_of :: "string \<Rightarrow> TopicCategory option" where
  "TopicCategory_of v =
     (if v = ''economy'' then Some ECONOMY
      else if v = ''politics'' then Some POLITICS
      else if v = ''security'' then Some SECURITY
      else if v = ''energy'' then Some ENERGY
      else if v = ''international'' then Some INTERNATIONAL
      else if v = ''monetary'' then Some MONETARY
      else if v = ''other'' then Some OTHER
      else None)"

definition ImpactDirection_of :: "string \<Rightarrow> ImpactDirection option" where
  "ImpactDirection_of v =
     (if v = ''POSITIVE'' then Some POSITIVE
      else if v = ''NEGATIVE'' then Some NEGATIVE
      else if v = ''NEUTRAL'' then Some NEUTRAL
      else None)"

definition TimeHorizon_of :: "string \<Rightarrow> TimeHorizon option" where
  "TimeHorizon_of v =
     (if v = ''short-term'' then Some SHORT_TERM
      else if v = ''medium-term'' then Some MEDIUM_TERM
      else if v = ''long-term'' then Some LONG_TERM
      else None)"

record RawNews =
  article_id :: string
  url :: string
  title :: string
  content :: string
  scraped_at :: int
  source :: string
  content_length :: nat
  hash_content :: string

record MarketIndicator =
  mi_name :: string
  mi_symbol :: string
  mi_value :: rat
  mi_change_pct :: "rat option"
  mi_tier :: MarketTier

record MarketSnapshot =
  snapshot_id :: string
  indicators :: "(string \<times> MarketIndicator) list"

text \<open>
  \<open>GateCheckResult.date_partition\<close> is computed by the schema from \<open>checked_at\<close> alone and is
  left out.
\<close>

record GateCheckResult =
  gcr_article_id :: string
  gate_name :: string
  gate_result :: GateResult
  gate_reason :: string
  checked_at :: int

definition passed :: "GateCheckResult \<Rightarrow> bool" where
  "passed r = (gate_result r = PASS)"

record SummarizationOutput =
  so_summary :: string
  so_cot_reasoning :: string

record TopicExtractionOutput =
  te_topics :: "TopicCategory list"
  te_cot_reasoning :: string
  te_confidence :: rat

record ImpactAnalysisOutput =
  ia_direction :: ImpactDirection
  ia_mechanisms :: "string list"
  ia_confidence :: rat
  ia_time_horizon :: TimeHorizon
  ia_cot_reasoning :: string

record RankingOutput =
  ro_score :: int
  ro_category :: RankingCategory
  ro_justification :: string
  ro_trader_action :: TraderAction
  ro_cot_reasoning :: string

text \<open>
  The constructors of the chain outputs run the checks of the schema in the order of the
  fields: the bounds declared with the field, then its validator. A failed check raises
  ValidationError.
\<close>

definition new_SummarizationOutput :: "string \<Rightarrow> string \<Rightarrow> py_error + SummarizationOutput" where
  "new_SummarizationOutput summary reasoning =
     (if summary = [] \<or> length (strip summary) < 10 then Inl ValidationError
      else Inr \<lparr> so_summary = strip summary, so_cot_reasoning = reasoning \<rparr>)"

definition new_TopicExtractionOutput ::
  "TopicCategory list \<Rightarrow> string \<Rightarrow> rat \<Rightarrow> py_error + TopicExtractionOutput" where
  "new_TopicExtractionOutput topics reasoning confidence =
     (if topics = [] then Inl ValidationError
      else if confidence < 0 then Inl ValidationError
      else if 1 < confidence then Inl ValidationError
      else if \<not> (0 \<le> confidence \<and> confidence \<le> 1) then Inl ValidationError
      else Inr \<lparr> te_topics = topics, te_cot_reasoning = reasoning, te_confidence = confidence \<rparr>)"

definition new_ImpactAnalysisOutput ::
  "ImpactDirection \<Rightarrow> string list \<Rightarrow> rat \<Rightarrow> TimeHorizon \<Rightarrow> string
     \<Rightarrow> py_error + ImpactAnalysisOutput" where
  "new_ImpactAnalysisOutput direction mechanisms confidence time_horizon reasoning =
     (if mechanisms = [] then Inl ValidationError
      else if confidence < 0 then Inl ValidationError
      else if 1 < confidence then Inl ValidationError
      else Inr \<lparr> ia_direction = direction, ia_mechanisms = mechanisms,
                 ia_confidence = confidence, ia_time_horizon = time_horizon,
                 ia_cot_reasoning = reasoning \<rparr>)"

definition new_RankingOutput ::
  "int \<Rightarrow> RankingCategory \<Rightarrow> string \<Rightarrow> TraderAction \<Rightarrow> string \<Rightarrow> py_error + RankingOutput" where
  "new_RankingOutput score category justification trader_action reasoning =
     (if score < 1 then Inl ValidationError
      else if 5 < score then Inl ValidationError
      else if \<not> (1 \<le> score \<and> score \<le> 5) then Inl ValidationError
      else if justification = [] \<or> length (strip justification) < 20 then Inl ValidationError
      else Inr \<lparr> ro_score = score, ro_category = category,
                 ro_justification = strip justification,
                 ro_trader_action = trader_action, ro_cot_reasoning = reasoning \<rparr>)"

text \<open>
  \<open>ProcessedNews\<close>: the clock reading \<open>processed_at\<close> and the \<open>date_partition\<close> derived from
  it are left out. The fields carry the prefix \<open>pn_\<close>.
\<close>

record ProcessedNews =
  pn_article_id :: string
  pn_processing_stage :: ProcessingStage
  pn_chain_step :: nat
  pn_input_tokens :: int
  pn_output_tokens :: int
  pn_processing_time_ms :: int
  pn_summary :: "string option"
  pn_summary_cot :: "string option"
  pn_topics :: "TopicCategory list option"
  pn_topics_cot :: "string option"
  pn_topics_confidence :: "rat option"
  pn_impact_direction :: "ImpactDirection option"
  pn_impact_mechanisms :: "string list option"
  pn_impact_confidence :: "rat option"
  pn_impact_time_horizon :: "TimeHorizon option"
  pn_impact_cot :: "string option"
  pn_ranking_score :: "int option"
  pn_ranking_category :: "RankingCategory option"
  pn_ranking_justification :: "string option"
  pn_ranking_trader_action :: "TraderAction option"
  pn_ranking_cot :: "string option"

definition ANTHROPIC_INPUT_COST_PER_1M :: rat where
  "ANTHROPIC_INPUT_COST_PER_1M = 3"

definition ANTHROPIC_OUTPUT_COST_PER_1M :: rat where
  "ANTHROPIC_OUTPUT_COST_PER_1M = 15"

definition total_tokens :: "ProcessedNews \<Rightarrow> int" where
  "total_tokens p = pn_input_tokens p + pn_output_tokens p"

definition cost_usd :: "ProcessedNews \<Rightarrow> rat" where
  "cost_usd p =
     (let input_cost = (of_int (pn_input_tokens p) / 1000000) * ANTHROPIC_INPUT_COST_PER_1M;
          output_cost = (of_int (pn_output_tokens p) / 1000000) * ANTHROPIC_OUTPUT_COST_PER_1M
      in input_cost + output_cost)"

section \<open>Gate pipeline (src/gates/base.py)\<close>

text \<open>
  A gate is its \<open>check\<close> method: a function from the article to a result. The pipeline
  holds the gates in order.
\<close>

type_synonym gate = "RawNews \<Rightarrow> GateCheckResult"

definition create_result :: "string \<Rightarrow> int \<Rightarrow> RawNews \<Rightarrow> bool \<Rightarrow> string \<Rightarrow> GateCheckResult" where
  \<comment> \<open>\<open>BaseGate._create_result\<close> of the gate called \<open>name\<close>, at clock reading \<open>now\<close>\<close>
  "create_result name now article ok reason =
     \<lparr> gcr_article_id = article_id article,
       gate_name = name,
       gate_result = (if ok then PASS else FAIL),
       gate_reason = reason,
       checked_at = now \<rparr>"

text \<open>The loop of \<open>GatePipeline.run\<close>, with the list \<open>results\<close> built so far.\<close>

fun run_loop :: "gate list \<Rightarrow> RawNews \<Rightarrow> GateCheckResult list \<Rightarrow> bool \<times> GateCheckResult list" where
  "run_loop [] article results = (True, results)"
| "run_loop (g # gs) article results =
     (let result = g article;
          results' = results @ [result]
      in if \<not> passed result then (False, results')
         else run_loop gs article results')"

definition run :: "gate list \<Rightarrow> RawNews \<Rightarrow> bool \<times> GateCheckResult list" where
  "run gates article = run_loop gates article []"

text \<open>The loop of \<open>GatePipeline.run_all_gates\<close>, with \<open>results\<close> and \<open>all_passed\<close> so far.\<close>

fun run_all_loop ::
  "gate list \<Rightarrow> RawNews \<Rightarrow> GateCheckResult list \<Rightarrow> bool \<Rightarrow> bool \<times> GateCheckResult list" where
  "run_all_loop [] article results all_passed = (all_passed, results)"
| "run_all_loop (g # gs) article results all_passed =
     (let result = g article;
          results' = results @ [result]
      in run_all_loop gs article results' (if \<not> passed result then False else all_passed))"

definition run_all_gates :: "gate list \<Rightarrow> RawNews \<Rightarrow> bool \<times> GateCheckResult list" where
  "run_all_gates gates article = run_all_loop gates article [] True"

section \<open>Topic-relevance gate (src/gates/topic_relevance.py, src/config/constants.py)\<close>

definition TOPIC_KEYWORDS :: "(TopicCategory \<times> string list) list" where
  "TOPIC_KEYWORDS =
    [
     (ECONOMY,
      [''econom'' @ [CHR 0xED] @ ''a'', ''econ'' @ [CHR 0xF3] @ ''mico'',
       ''d'' @ [CHR 0xF3] @ ''lar'', ''peso'', ''inflaci'' @ [CHR 0xF3] @ ''n'', ''banco'',
       ''comercio'', ''inversi'' @ [CHR 0xF3] @ ''n'', ''pib'', ''crecimiento'',
       ''fiscal'', ''tributaria'', ''empleo'', ''desempleo'', ''salario'',
       ''importaci'' @ [CHR 0xF3] @ ''n'', ''exportaci'' @ [CHR 0xF3] @ ''n'', ''deuda'',
       ''d'' @ [CHR 0xE9] @ ''ficit'', ''super'' @ [CHR 0xE1] @ ''vit'', ''mercado'',
       ''bolsa'', ''acciones'']),
     (POLITICS,
      [''gobierno'', ''petro'', ''congreso'', ''reforma'', ''ley'', ''ministro'',
       ''presidente'', ''pol'' @ [CHR 0xED] @ ''tica'', ''elecciones'',
       ''votaci'' @ [CHR 0xF3] @ ''n'', ''senado'', ''c'' @ [CHR 0xE1] @ ''mara'',
       ''decreto'', ''acuerdo'', ''negociaci'' @ [CHR 0xF3] @ ''n'',
       ''coalici'' @ [CHR 0xF3] @ ''n'']),
     (SECURITY,
      [''conflicto'', ''farc'', ''eln'', ''seguridad'', ''violencia'', ''militar'',
       ''polic'' @ [CHR 0xED] @ ''a'', ''guerrilla'', ''disidencia'', ''ataque'',
       ''atentado'', ''secuestro'', ''narcotr'' @ [CHR 0xE1] @ ''fico'', ''droga'',
       ''paz'', ''acuerdo de paz'']),
     (ENERGY,
      [''petr'' @ [CHR 0xF3] @ ''leo'', ''ecopetrol'', ''energ'' @ [CHR 0xED] @ ''a'',
       ''carb'' @ [CHR 0xF3] @ ''n'', ''gas'', ''crudo'', ''barril'',
       ''exploraci'' @ [CHR 0xF3] @ ''n'', ''producci'' @ [CHR 0xF3] @ ''n'',
       ''refiner'' @ [CHR 0xED] @ ''a'', ''oleoducto'', ''fracking'', ''yacimiento'',
       ''reservas'', ''opep'', ''wti'', ''brent'']),
     (INTERNATIONAL,
      [''venezuela'', ''ecuador'', ''brasil'', ''estados unidos'', ''china'',
       ''exportaci'' @ [CHR 0xF3] @ ''n'', ''tratado'', ''acuerdo comercial'', ''otan'',
       ''onu'', ''frontera'', ''migraci'' @ [CHR 0xF3] @ ''n'', ''diplomacia'',
       ''embajada'', ''trump'']),
     (MONETARY,
      [''banco de la rep'' @ [CHR 0xFA] @ ''blica'', ''banrep'',
       ''tasa de inter'' @ [CHR 0xE9] @ ''s'', ''pol'' @ [CHR 0xED] @ ''tica monetaria'',
       ''emisi'' @ [CHR 0xF3] @ ''n'', ''reservas internacionales'', ''tipo de cambio'',
       ''devaluaci'' @ [CHR 0xF3] @ ''n'', ''revaluaci'' @ [CHR 0xF3] @ ''n'',
       ''intervenci'' @ [CHR 0xF3] @ ''n cambiaria'', ''junta directiva''])
    ]"

definition ALL_RELEVANT_KEYWORDS :: "string list" where
  "ALL_RELEVANT_KEYWORDS = concat (map snd TOPIC_KEYWORDS)"

definition MIN_KEYWORD_MATCHES :: nat where
  "MIN_KEYWORD_MATCHES = 2"

definition count_keyword_matches :: "string \<Rightarrow> nat \<times> string list" where
  "count_keyword_matches text =
     (let text_lower = lower text;
          matched_keywords = filter (\<lambda>keyword. contains text_lower keyword) ALL_RELEVANT_KEYWORDS
      in (length matched_keywords, matched_keywords))"

definition TopicRelevanceGate_check :: "int \<Rightarrow> RawNews \<Rightarrow> GateCheckResult" where
  "TopicRelevanceGate_check now article =
     (let full_text = title article @ '' '' @ content article;
          (match_count, matched_keywords) = count_keyword_matches full_text
      in if match_count < MIN_KEYWORD_MATCHES
         then create_result ''topic_relevance'' now article False
                (''Insufficient keyword matches: '' @ str_of_nat match_count @ '' < ''
                   @ str_of_nat MIN_KEYWORD_MATCHES)
         else let keywords_sample = take 5 matched_keywords
              in create_result ''topic_relevance'' now article True
                   (''Found '' @ str_of_nat match_count @ '' relevant keywords (e.g., ''
                      @ join '', '' keywords_sample @ '')''))"

text \<open>
  The number the specification speaks of: how many distinct keywords of the lexicon occur
  in the lower-cased text.
\<close>

definition distinct_keyword_matches :: "string \<Rightarrow> nat" where
  "distinct_keyword_matches text =
     length (remdups (filter (\<lambda>keyword. contains (lower text) keyword) ALL_RELEVANT_KEYWORDS))"

section \<open>Content-quality gate (src/gates/content_quality.py)\<close>

definition MIN_CONTENT_LENGTH :: nat where
  "MIN_CONTENT_LENGTH = 200"

definition MAX_CONTENT_LENGTH :: nat where
  "MAX_CONTENT_LENGTH = 50000"

definition REQUIRED_SPANISH_RATIO :: rat where
  "REQUIRED_SPANISH_RATIO = 3 / 10"

definition spanish_indicators :: "string list" where
  "spanish_indicators =
     [''el '', ''la '', ''los '', ''las '', ''de '', ''del '', ''en '', ''y '',
      ''que '', ''es '', ''un '', ''una '', ''por '', ''para '', ''con '',
      ''gobierno'', ''presidente'', ''pa'' @ [CHR 0xED] @ ''s'', ''econom'' @ [CHR 0xED] @ ''a'',
      ''colombia'', ''aci'' @ [CHR 0xF3] @ ''n'', ''ci'' @ [CHR 0xF3] @ ''n'', ''dad'', ''mente'',
      ''a'' @ [CHR 0xF1] @ ''o'', ''m'' @ [CHR 0xE1] @ ''s'', ''seg'' @ [CHR 0xFA] @ ''n'']"

definition detect_spanish_ratio :: "string \<Rightarrow> rat" where
  "detect_spanish_ratio text =
     (let text_lower = lower text;
          spanish_count = sum_list (map (\<lambda>indicator. count text_lower indicator) spanish_indicators);
          words = split text_lower
      in if length words = 0 then 0
         else min (of_nat spanish_count / of_nat (length words)) 1)"

text \<open>
  \<open>format_2f\<close> is the rendering of a float with two decimals (\<open>:.2f\<close>), which belongs to the
  runtime; the reasons are otherwise the strings of the source.
\<close>

definition ContentQualityGate_check :: "(rat \<Rightarrow> string) \<Rightarrow> int \<Rightarrow> RawNews \<Rightarrow> GateCheckResult" where
  "ContentQualityGate_check format_2f now article =
     (let content_length = length (content article)
      in if content_length < MIN_CONTENT_LENGTH
         then create_result ''content_quality'' now article False
                (''Content too short: '' @ str_of_nat content_length @ '' < ''
                   @ str_of_nat MIN_CONTENT_LENGTH @ '' chars'')
         else if content_length > MAX_CONTENT_LENGTH
         then create_result ''content_quality'' now article False
                (''Content too long: '' @ str_of_nat content_length @ '' > ''
                   @ str_of_nat MAX_CONTENT_LENGTH @ '' chars'')
         else let spanish_ratio = detect_spanish_ratio (content article)
              in if spanish_ratio < REQUIRED_SPANISH_RATIO
                 then create_result ''content_quality'' now article False
                        (''Spanish ratio too low: '' @ format_2f spanish_ratio @ '' < 0.3'')
                 else if title article = [] \<or> strip (title article) = []
                 then create_result ''content_quality'' now article False ''Missing title''
                 else if content article = [] \<or> strip (content article) = []
                 then create_result ''content_quality'' now article False ''Missing content''
                 else create_result ''content_quality'' now article True
                        (''Quality checks passed (length: '' @ str_of_nat content_length
                           @ '', spanish: '' @ format_2f spanish_ratio @ '')''))"

section \<open>Chain executor (src/processors/chain_executor.py)\<close>

text \<open>
  The parsed reply of the text-generation service, \<open>response_json\<close>: the keys the executor
  reads, and the two keys of the stage-4 format it never reads (\<open>category\<close> is fetched and
  not used, \<open>trader_action\<close> is not fetched). A key is absent (\<open>None\<close>) or holds a value of
  the JSON type its schema field declares.
\<close>

record response_json =
  r_summary :: "string option"
  r_reasoning :: "string option"
  r_topics :: "string list option"
  r_confidence :: "rat option"
  r_direction :: "string option"
  r_mechanisms :: "string list option"
  r_time_horizon :: "string option"
  r_score :: "int option"
  r_category :: "string option"
  r_justification :: "string option"
  r_trader_action :: "string option"

definition get :: "'a option \<Rightarrow> 'a \<Rightarrow> 'a" where
  \<comment> \<open>\<open>dict.get(key, default)\<close> on the entry of the key\<close>
  "get entry dflt = (case entry of None \<Rightarrow> dflt | Some v \<Rightarrow> v)"

text \<open>
  What a stage sends: its prompt template filled with these arguments. The service
  \<open>call_with_json_response\<close> is a collaborator with a hidden state \<open>'s\<close>; it raises (transport
  or JSON errors) or returns the parsed reply and the two token counts. The fourth number
  is the time in milliseconds that the stage measures around the call.
\<close>

datatype request =
    STEP_1_SUMMARIZATION string string
  | STEP_2_TOPIC_EXTRACTION string string
  | STEP_3_IMPACT_ANALYSIS string "TopicCategory list" MarketSnapshot
  | STEP_4_RANKING string "TopicCategory list" ImpactAnalysisOutput

type_synonym reply = "response_json \<times> int \<times> int \<times> int"

type_synonym 's llm_client = "request \<Rightarrow> 's \<Rightarrow> (py_error + reply) \<times> 's"

text \<open>The blocks "Parse output" of the four stages.\<close>

definition parse_step_1 :: "response_json \<Rightarrow> py_error + SummarizationOutput" where
  "parse_step_1 r = new_SummarizationOutput (get (r_summary r) '''') (get (r_reasoning r) '''')"

fun parse_topics :: "string list \<Rightarrow> TopicCategory list \<Rightarrow> TopicCategory list" where
  "parse_topics [] topics = topics"
| "parse_topics (topic_str # rest) topics =
     (case TopicCategory_of topic_str of
        Some t \<Rightarrow> parse_topics rest (topics @ [t])
      | None \<Rightarrow> parse_topics rest topics)"

definition parse_step_2 :: "response_json \<Rightarrow> py_error + TopicExtractionOutput" where
  "parse_step_2 r =
     (let topic_strings = get (r_topics r) [];
          topics = parse_topics topic_strings []
      in new_TopicExtractionOutput (if topics \<noteq> [] then topics else [OTHER])
           (get (r_reasoning r) '''') (get (r_confidence r) (1 / 2)))"

definition parse_step_3 :: "response_json \<Rightarrow> py_error + ImpactAnalysisOutput" where
  "parse_step_3 r =
     (case ImpactDirection_of (get (r_direction r) ''NEUTRAL'') of
        None \<Rightarrow> Inl ValueError
      | Some direction \<Rightarrow>
          (case TimeHorizon_of (get (r_time_horizon r) ''medium-term'') of
             None \<Rightarrow> Inl ValueError
           | Some time_horizon \<Rightarrow>
               new_ImpactAnalysisOutput direction (get (r_mechanisms r) [])
                 (get (r_confidence r) (1 / 2)) time_horizon (get (r_reasoning r) '''')))"

definition score_to_category :: "int \<Rightarrow> RankingCategory option" where
  "score_to_category score =
     (if score = 1 then Some IRRELEVANT
      else if score = 2 then Some LOW
      else if score = 3 then Some MODERATE
      else if score = 4 then Some HIGH
      else if score = 5 then Some CRITICAL
      else None)"

definition parse_step_4 :: "response_json \<Rightarrow> py_error + RankingOutput" where
  "parse_step_4 r =
     (let score = get (r_score r) 3;
          category_str = get (r_category r) ''Moderate'';
          category = get (score_to_category score) MODERATE;
          trader_action = (if score \<le> 2 then MONITOR else if score \<le> 4 then ALERT else URGENT)
      in new_RankingOutput score category (get (r_justification r) '''') trader_action
           (get (r_reasoning r) ''''))"

text \<open>
  A stage: send the request, parse the reply; any raise of the call or of the parsing
  leaves the stage.
\<close>

definition stage ::
  "'s llm_client \<Rightarrow> request \<Rightarrow> (response_json \<Rightarrow> py_error + 'o) \<Rightarrow> 's
     \<Rightarrow> (py_error + 'o \<times> int \<times> int \<times> int) \<times> 's" where
  "stage llm prompt parse s =
     (case llm prompt s of
        (Inl e, s') \<Rightarrow> (Inl e, s')
      | (Inr (r, input_tokens, output_tokens, processing_time_ms), s') \<Rightarrow>
          (case parse r of
             Inl e \<Rightarrow> (Inl e, s')
           | Inr out \<Rightarrow> (Inr (out, input_tokens, output_tokens, processing_time_ms), s')))"

definition execute_step_1 ::
  "'s llm_client \<Rightarrow> RawNews \<Rightarrow> 's \<Rightarrow> (py_error + SummarizationOutput \<times> int \<times> int \<times> int) \<times> 's" where
  "execute_step_1 llm article =
     stage llm (STEP_1_SUMMARIZATION (title article) (content article)) parse_step_1"

definition execute_step_2 ::
  "'s llm_client \<Rightarrow> RawNews \<Rightarrow> string \<Rightarrow> 's
     \<Rightarrow> (py_error + TopicExtractionOutput \<times> int \<times> int \<times> int) \<times> 's" where
  "execute_step_2 llm article summary =
     stage llm (STEP_2_TOPIC_EXTRACTION summary (title article)) parse_step_2"

definition execute_step_3 ::
  "'s llm_client \<Rightarrow> RawNews \<Rightarrow> string \<Rightarrow> TopicCategory list \<Rightarrow> MarketSnapshot \<Rightarrow> 's
     \<Rightarrow> (py_error + ImpactAnalysisOutput \<times> int \<times> int \<times> int) \<times> 's" where
  "execute_step_3 llm article summary topics market_context =
     stage llm (STEP_3_IMPACT_ANALYSIS summary topics market_context) parse_step_3"

definition execute_step_4 ::
  "'s llm_client \<Rightarrow> RawNews \<Rightarrow> string \<Rightarrow> TopicCategory list \<Rightarrow> ImpactAnalysisOutput \<Rightarrow> 's
     \<Rightarrow> (py_error + RankingOutput \<times> int \<times> int \<times> int) \<times> 's" where
  "execute_step_4 llm article summary topics impact =
     stage llm (STEP_4_RANKING summary topics impact) parse_step_4"

definition execute_full_chain ::
  "'s llm_client \<Rightarrow> RawNews \<Rightarrow> MarketSnapshot \<Rightarrow> 's \<Rightarrow> (py_error + ProcessedNews) \<times> 's" where
  "execute_full_chain llm article market_context s0 =
     (case execute_step_1 llm article s0 of
        (Inl e, s1) \<Rightarrow> (Inl e, s1)
      | (Inr (summary_output, in1, out1, time1), s1) \<Rightarrow>
     (case execute_step_2 llm article (so_summary summary_output) s1 of
        (Inl e, s2) \<Rightarrow> (Inl e, s2)
      | (Inr (topic_output, in2, out2, time2), s2) \<Rightarrow>
     (case execute_step_3 llm article (so_summary summary_output) (te_topics topic_output)
             market_context s2 of
        (Inl e, s3) \<Rightarrow> (Inl e, s3)
      | (Inr (impact_output, in3, out3, time3), s3) \<Rightarrow>
     (case execute_step_4 llm article (so_summary summary_output) (te_topics topic_output)
             impact_output s3 of
        (Inl e, s4) \<Rightarrow> (Inl e, s4)
      | (Inr (ranking_output, in4, out4, time4), s4) \<Rightarrow>
          (Inr \<lparr> pn_article_id = article_id article,
                 pn_processing_stage = RANKING,
                 pn_chain_step = 4,
                 pn_input_tokens = 0 + in1 + in2 + in3 + in4,
                 pn_output_tokens = 0 + out1 + out2 + out3 + out4,
                 pn_processing_time_ms = 0 + time1 + time2 + time3 + time4,
                 pn_summary = Some (so_summary summary_output),
                 pn_summary_cot = Some (so_cot_reasoning summary_output),
                 pn_topics = Some (te_topics topic_output),
                 pn_topics_cot = Some (te_cot_reasoning topic_output),
                 pn_topics_confidence = Some (te_confidence topic_output),
                 pn_impact_direction = Some (ia_direction impact_output),
                 pn_impact_mechanisms = Some (ia_mechanisms impact_output),
                 pn_impact_confidence = Some (ia_confidence impact_output),
                 pn_impact_time_horizon = Some (ia_time_horizon impact_output),
                 pn_impact_cot = Some (ia_cot_reasoning impact_output),
                 pn_ranking_score = Some (ro_score ranking_output),
                 pn_ranking_category = Some (ro_category ranking_output),
                 pn_ranking_justification = Some (ro_justification ranking_output),
                 pn_ranking_trader_action = Some (ro_trader_action ranking_output),
                 pn_ranking_cot = Some (ro_cot_reasoning ranking_output) \<rparr>, s4)))))"

section \<open>Cost tracker (src/pipeline/cost_tracker.py)\<close>

record article_cost =
  ac_article_id :: string
  ac_input_tokens :: int
  ac_output_tokens :: int
  ac_total_tokens :: int
  ac_cost_usd :: rat
  ac_ranking_score :: "int option"
  ac_processing_time_ms :: int

record CostTracker =
  total_input_tokens :: int
  total_output_tokens :: int
  total_cost_usd :: rat
  article_costs :: "article_cost list"

record CostReport =
  rep_date :: string
  rep_total_articles :: nat
  rep_total_input_tokens :: int
  rep_total_output_tokens :: int
  rep_total_tokens :: int
  rep_total_cost_usd :: rat
  rep_avg_tokens_per_article :: rat
  rep_avg_cost_per_article :: rat
  rep_min_cost_article :: rat
  rep_max_cost_article :: rat
  rep_processing_time_ms :: int
  rep_cost_breakdown :: "article_cost list"

definition new_CostTracker :: CostTracker where
  "new_CostTracker =
     \<lparr> total_input_tokens = 0, total_output_tokens = 0, total_cost_usd = 0, article_costs = [] \<rparr>"

definition new_CostReport :: "string \<Rightarrow> CostReport" where
  \<comment> \<open>\<open>CostReport(date=date)\<close>: every other field at its default\<close>
  "new_CostReport date =
     \<lparr> rep_date = date, rep_total_articles = 0, rep_total_input_tokens = 0,
       rep_total_output_tokens = 0, rep_total_tokens = 0, rep_total_cost_usd = 0,
       rep_avg_tokens_per_article = 0, rep_avg_cost_per_article = 0,
       rep_min_cost_article = 0, rep_max_cost_article = 0, rep_processing_time_ms = 0,
       rep_cost_breakdown = [] \<rparr>"

definition add_processed_article :: "CostTracker \<Rightarrow> ProcessedNews \<Rightarrow> CostTracker" where
  "add_processed_article self processed =
     \<lparr> total_input_tokens = total_input_tokens self + pn_input_tokens processed,
       total_output_tokens = total_output_tokens self + pn_output_tokens processed,
       total_cost_usd = total_cost_usd self + cost_usd processed,
       article_costs = article_costs self @
         [\<lparr> ac_article_id = pn_article_id processed,
            ac_input_tokens = pn_input_tokens processed,
            ac_output_tokens = pn_output_tokens processed,
            ac_total_tokens = total_tokens processed,
            ac_cost_usd = cost_usd processed,
            ac_ranking_score = pn_ranking_score processed,
            ac_processing_time_ms = pn_processing_time_ms processed \<rparr>] \<rparr>"

definition get_total_tokens :: "CostTracker \<Rightarrow> int" where
  "get_total_tokens self = total_input_tokens self + total_output_tokens self"

definition truediv :: "rat \<Rightarrow> nat \<Rightarrow> py_error + rat" where
  \<comment> \<open>the division \<open>/\<close> by a length: it raises on zero\<close>
  "truediv a n = (if n = 0 then Inl ZeroDivisionError else Inr (a / of_nat n))"

definition min_of :: "rat list \<Rightarrow> py_error + rat" where
  \<comment> \<open>the builtin \<open>min\<close> of a list: it raises ValueError on the empty list\<close>
  "min_of xs = (case xs of [] \<Rightarrow> Inl ValueError | x # rest \<Rightarrow> Inr (fold min rest x))"

definition max_of :: "rat list \<Rightarrow> py_error + rat" where
  "max_of xs = (case xs of [] \<Rightarrow> Inl ValueError | x # rest \<Rightarrow> Inr (fold max rest x))"

definition get_average_cost_per_article :: "CostTracker \<Rightarrow> py_error + rat" where
  "get_average_cost_per_article self =
     (if article_costs self = [] then Inr 0
      else truediv (total_cost_usd self) (length (article_costs self)))"

definition get_average_tokens_per_article :: "CostTracker \<Rightarrow> py_error + rat" where
  "get_average_tokens_per_article self =
     (if article_costs self = [] then Inr 0
      else truediv (of_int (get_total_tokens self)) (length (article_costs self)))"

text \<open>
  \<open>generate_report\<close>: \<open>today\<close> is the date the clock gives when no date is passed. The
  arguments of the report are evaluated in the order of the source, and the first raise
  leaves the call.
\<close>

definition generate_report :: "string \<Rightarrow> CostTracker \<Rightarrow> string option \<Rightarrow> py_error + CostReport" where
  "generate_report today self date_arg =
     (let date = (case date_arg of None \<Rightarrow> today | Some d \<Rightarrow> d)
      in if article_costs self = [] then Inr (new_CostReport date)
         else let costs = map ac_cost_usd (article_costs self);
                  total_processing_time = sum_list (map ac_processing_time_ms (article_costs self))
              in (case get_average_tokens_per_article self of
                    Inl e \<Rightarrow> Inl e
                  | Inr avg_tokens \<Rightarrow>
                 (case get_average_cost_per_article self of
                    Inl e \<Rightarrow> Inl e
                  | Inr avg_cost \<Rightarrow>
                 (case min_of costs of
                    Inl e \<Rightarrow> Inl e
                  | Inr min_cost \<Rightarrow>
                 (case max_of costs of
                    Inl e \<Rightarrow> Inl e
                  | Inr max_cost \<Rightarrow>
                      Inr \<lparr> rep_date = date,
                            rep_total_articles = length (article_costs self),
                            rep_total_input_tokens = total_input_tokens self,
                            rep_total_output_tokens = total_output_tokens self,
                            rep_total_tokens = get_total_tokens self,
                            rep_total_cost_usd = total_cost_usd self,
                            rep_avg_tokens_per_article = avg_tokens,
                            rep_avg_cost_per_article = avg_cost,
                            rep_min_cost_article = min_cost,
                            rep_max_cost_article = max_cost,
                            rep_processing_time_ms = total_processing_time,
                            rep_cost_breakdown = article_costs self \<rparr>)))))"

section \<open>Processing phase of the orchestrator (src/pipeline/orchestrator.py)\<close>

text \<open>
  The loop of \<open>run_processing\<close> over the articles, on the list \<open>processed_articles\<close>, the
  cost tracker and the state of the service. A chain that raises is caught and the loop
  continues. Logging and the write of the finished list to storage come after the loop
  and are not modelled.
\<close>

fun processing_loop ::
  "'s llm_client \<Rightarrow> MarketSnapshot \<Rightarrow> RawNews list \<Rightarrow> ProcessedNews list \<times> CostTracker \<times> 's
     \<Rightarrow> ProcessedNews list \<times> CostTracker \<times> 's" where
  "processing_loop llm market_snapshot [] st = st"
| "processing_loop llm market_snapshot (article # rest) (processed_articles, cost_tracker, s) =
     (case execute_full_chain llm article market_snapshot s of
        (Inl e, s') \<Rightarrow>
          processing_loop llm market_snapshot rest (processed_articles, cost_tracker, s')
      | (Inr processed, s') \<Rightarrow>
          processing_loop llm market_snapshot rest
            (processed_articles @ [processed], add_processed_article cost_tracker processed, s'))"

definition run_processing ::
  "'s llm_client \<Rightarrow> RawNews list \<Rightarrow> MarketSnapshot \<Rightarrow> CostTracker \<times> 's
     \<Rightarrow> ProcessedNews list \<times> CostTracker \<times> 's" where
  "run_processing llm articles market_snapshot st =
     processing_loop llm market_snapshot articles ([], fst st, snd st)"

section \<open>Concrete inputs\<close>

text \<open>A short article about flower exports; "exportaci\'on" is the only lexicon keyword in it.\<close>

definition flower_article :: RawNews where
  "flower_article =
     \<lparr> article_id = ''a-001'',
       url = ''https://cnnespanol.cnn.com/colombia/balance-floricultor'',
       title = ''Balance floricultor'',
       content = ''La exportaci'' @ [CHR 0xF3] @ ''n de flores baj'' @ [CHR 0xF3] @ ''.'',
       scraped_at = 1735689600,
       source = ''CNN_Colombia'',
       content_length = 30,
       hash_content = '''' \<rparr>"

definition empty_market :: MarketSnapshot where
  "empty_market = \<lparr> snapshot_id = ''m-001'', indicators = [] \<rparr>"

definition gate_accepting :: gate where
  "gate_accepting article = create_result ''accepting'' 0 article True ''ok''"

definition gate_rejecting :: gate where
  "gate_rejecting article = create_result ''rejecting'' 0 article False ''no''"

definition empty_json :: response_json where
  "empty_json =
     \<lparr> r_summary = None, r_reasoning = None, r_topics = None, r_confidence = None,
       r_direction = None, r_mechanisms = None, r_time_horizon = None, r_score = None,
       r_category = None, r_justification = None, r_trader_action = None \<rparr>"

text \<open>
  A service that answers each stage with a fixed reply, 100 input tokens, 50 output
  tokens and 7 ms, and counts its calls.
\<close>

definition staged_llm ::
  "response_json \<Rightarrow> response_json \<Rightarrow> response_json \<Rightarrow> response_json \<Rightarrow> nat llm_client" where
  "staged_llm r1 r2 r3 r4 prompt calls =
     (Inr (case prompt of
             STEP_1_SUMMARIZATION _ _ \<Rightarrow> r1
           | STEP_2_TOPIC_EXTRACTION _ _ \<Rightarrow> r2
           | STEP_3_IMPACT_ANALYSIS _ _ _ \<Rightarrow> r3
           | STEP_4_RANKING _ _ _ \<Rightarrow> r4, 100, 50, 7), Suc calls)"

definition reply_summary :: response_json where
  "reply_summary =
     empty_json \<lparr> r_summary := Some ''Las ventas de flores al exterior bajaron en el trimestre.'',
                  r_reasoning := Some ''Actores: cultivadores.'' \<rparr>"

definition reply_topics :: response_json where
  "reply_topics =
     empty_json \<lparr> r_topics := Some [''economy'', ''flowers''], r_confidence := Some (9 / 10) \<rparr>"

definition reply_topics_bad_confidence :: response_json where
  "reply_topics_bad_confidence =
     empty_json \<lparr> r_topics := Some [''economy''], r_confidence := Some 2 \<rparr>"

definition reply_impact_no_direction :: response_json where
  "reply_impact_no_direction =
     empty_json \<lparr> r_mechanisms := Some [''menor ingreso de divisas''],
                  r_confidence := Some (6 / 10), r_time_horizon := Some ''short-term'' \<rparr>"


definition reply_ranking_no_score :: response_json where
  "reply_ranking_no_score =
     empty_json \<lparr> r_justification := Some ''Efecto limitado sobre la tasa de cambio.'',
                  r_category := Some ''Critical'', r_trader_action := Some ''urgent'' \<rparr>"



definition neutral_impact :: ImpactAnalysisOutput where
  "neutral_impact =
     \<lparr> ia_direction = NEUTRAL, ia_mechanisms = [''menor ingreso de divisas''],
       ia_confidence = 6 / 10, ia_time_horizon = SHORT_TERM, ia_cot_reasoning = '''' \<rparr>"

definition flower_summary :: SummarizationOutput where
  "flower_summary =
     \<lparr> so_summary = ''Las ventas de flores al exterior bajaron en el trimestre.'',
       so_cot_reasoning = ''Actores: cultivadores.'' \<rparr>"

definition flower_topics :: TopicExtractionOutput where
  "flower_topics = \<lparr> te_topics = [ECONOMY], te_cot_reasoning = '''', te_confidence = 9 / 10 \<rparr>"

section \<open>Properties of the gate pipeline\<close>

lemma run_all_loop_eq:
  "run_all_loop gs a rs ok =
     (ok \<and> (\<forall>g \<in> set gs. passed (g a)), rs @ map (\<lambda>g. g a) gs)"
  by (induction gs arbitrary: rs ok) (auto simp: Let_def)

lemma run_all_gates_eq:
  "run_all_gates gs a = ((\<forall>g \<in> set gs. passed (g a)), map (\<lambda>g. g a) gs)"
  by (simp add: run_all_gates_def run_all_loop_eq)

lemma run_loop_first_failure:
  "\<forall>g \<in> set ps. passed (g a) \<Longrightarrow> \<not> passed (f a) \<Longrightarrow>
   run_loop (ps @ f # later) a rs = (False, rs @ map (\<lambda>g. g a) ps @ [f a])"
  by (induction ps arbitrary: rs) (auto simp: Let_def)

lemma run_loop_fst: "fst (run_loop gs a rs) = (\<forall>g \<in> set gs. passed (g a))"
  by (induction gs arbitrary: rs) (auto simp: Let_def)

lemma run_loop_prefix:
  "\<exists>n. snd (run_loop gs a rs) = rs @ map (\<lambda>g. g a) (take n gs)"
proof (induction gs arbitrary: rs)
  case Nil
  then show ?case by simp
next
  case (Cons g gs)
  show ?case
  proof (cases "passed (g a)")
    case False
    then have "snd (run_loop (g # gs) a rs) = rs @ map (\<lambda>g. g a) (take 1 (g # gs))"
      by (simp add: Let_def)
    then show ?thesis by blast
  next
    case True
    from Cons.IH [of "rs @ [g a]"] obtain n
      where "snd (run_loop gs a (rs @ [g a])) = (rs @ [g a]) @ map (\<lambda>g. g a) (take n gs)"
      by blast
    with True have "snd (run_loop (g # gs) a rs) = rs @ map (\<lambda>g. g a) (take (Suc n) (g # gs))"
      by (simp add: Let_def)
    then show ?thesis by blast
  qed
qed

lemma split_at_gate:
  assumes "1 \<le> k" "k \<le> length gs"
  shows "gs = take (k - 1) gs @ (gs ! (k - 1)) # drop k gs"
proof -
  from assms have "k - 1 < length gs" by arith
  then have "gs = take (k - 1) gs @ (gs ! (k - 1)) # drop (Suc (k - 1)) gs"
    by (simp add: id_take_nth_drop [symmetric])
  with assms show ?thesis by simp
qed

lemma take_up_to_gate:
  assumes "1 \<le> k" "k \<le> length gs"
  shows "take k gs = take (k - 1) gs @ [gs ! (k - 1)]"
proof -
  from assms have "k - 1 < length gs" by arith
  then have "take (Suc (k - 1)) gs = take (k - 1) gs @ [gs ! (k - 1)]"
    by (rule take_Suc_conv_app_nth)
  with assms show ?thesis by simp
qed

text \<open>
  C5. If the article passes gates 1..k-1 and fails gate k (1-indexed), the fail-fast run
  returns passed = False with exactly the k results of gates 1..k in order; the gates
  after k have no part in it (any other gates in their place give the same outcome); the
  exhaustive run returns one result per configured gate, in order.
\<close>

theorem run_fail_fast_k_results:
  assumes "1 \<le> k" and "k \<le> length gates"
    and "\<forall>i < k - 1. passed ((gates ! i) article)"
    and "\<not> passed ((gates ! (k - 1)) article)"
  shows "run gates article = (False, map (\<lambda>g. g article) (take k gates))
       \<and> length (snd (run gates article)) = k
       \<and> run (take k gates @ others) article = run gates article
       \<and> snd (run_all_gates gates article) = map (\<lambda>g. g article) gates
       \<and> length (snd (run_all_gates gates article)) = length gates"
proof -
  let ?ps = "take (k - 1) gates" and ?f = "gates ! (k - 1)"
  have split: "gates = ?ps @ ?f # drop k gates"
    using assms(1,2) by (rule split_at_gate)
  have tk: "take k gates = ?ps @ [?f]"
    using assms(1,2) by (rule take_up_to_gate)
  have ps: "\<forall>g \<in> set ?ps. passed (g article)"
  proof
    fix g assume "g \<in> set ?ps"
    then obtain i where "i < length ?ps" "?ps ! i = g"
      by (auto simp: in_set_conv_nth)
    with assms(2,3) show "passed (g article)" by auto
  qed
  have r: "run (?ps @ ?f # later) article = (False, map (\<lambda>g. g article) (?ps @ [?f]))" for later
    using run_loop_first_failure [of ?ps article ?f later "[]"] ps assms(4) by (simp add: run_def)
  from r [of "drop k gates"] split tk
  have 1: "run gates article = (False, map (\<lambda>g. g article) (take k gates))" by simp
  from 1 assms(2) have 2: "length (snd (run gates article)) = k" by simp
  from r [of others] 1 tk
  have 3: "run (take k gates @ others) article = run gates article" by simp
  have 4: "snd (run_all_gates gates article) = map (\<lambda>g. g article) gates"
    by (simp add: run_all_gates_eq)
  then have 5: "length (snd (run_all_gates gates article)) = length gates" by simp
  from 1 2 3 4 5 show ?thesis by blast
qed

theorem run_fail_fast_k_results_witness:
  "1 \<le> (2::nat) \<and> 2 \<le> length [gate_accepting, gate_rejecting, gate_accepting]
   \<and> passed (([gate_accepting, gate_rejecting, gate_accepting] ! 0) flower_article)
   \<and> \<not> passed (([gate_accepting, gate_rejecting, gate_accepting] ! (2 - 1)) flower_article)
   \<and> run [gate_accepting, gate_rejecting, gate_accepting] flower_article
       = (False, [gate_accepting flower_article, gate_rejecting flower_article])
   \<and> length (snd (run [gate_accepting, gate_rejecting, gate_accepting] flower_article)) = 2
   \<and> run [gate_accepting, gate_rejecting, gate_rejecting] flower_article
       = run [gate_accepting, gate_rejecting, gate_accepting] flower_article
   \<and> length (snd (run_all_gates [gate_accepting, gate_rejecting, gate_accepting] flower_article)) = 3"
proof -
  let ?G = "[gate_accepting, gate_rejecting, gate_accepting]"
  have h1: "1 \<le> (2::nat)" and h2: "2 \<le> length ?G" by simp_all
  have h3: "\<forall>i < 2 - 1. passed ((?G ! i) flower_article)"
    by (simp add: gate_accepting_def create_result_def passed_def)
  have h4: "\<not> passed ((?G ! (2 - 1)) flower_article)"
    by (simp add: gate_rejecting_def create_result_def passed_def)
  from run_fail_fast_k_results [OF h1 h2 h3 h4, of "[gate_rejecting]"] h3 h4
  show ?thesis by simp
qed

text \<open>
  C9. The fail-fast run and the exhaustive run agree on the verdict, and the results of
  the fail-fast run are a prefix of the results of the exhaustive run.
\<close>

theorem run_agrees_with_run_all_gates:
  "fst (run gates article) = fst (run_all_gates gates article) \<and>
   prefix (snd (run gates article)) (snd (run_all_gates gates article))"
proof
  show "fst (run gates article) = fst (run_all_gates gates article)"
    by (simp add: run_def run_loop_fst run_all_gates_eq)
  from run_loop_prefix [of gates article "[]"] obtain n
    where "snd (run gates article) = map (\<lambda>g. g article) (take n gates)"
    by (auto simp: run_def)
  then show "prefix (snd (run gates article)) (snd (run_all_gates gates article))"
    by (simp add: run_all_gates_eq take_map [symmetric] take_is_prefix)
qed

theorem run_agrees_with_run_all_gates_witness:
  "fst (run [gate_accepting, gate_rejecting, gate_accepting] flower_article) = False
   \<and> fst (run_all_gates [gate_accepting, gate_rejecting, gate_accepting] flower_article) = False
   \<and> prefix (snd (run [gate_accepting, gate_rejecting, gate_accepting] flower_article))
        (snd (run_all_gates [gate_accepting, gate_rejecting, gate_accepting] flower_article))"
proof -
  have "\<not> fst (run [gate_accepting, gate_rejecting, gate_accepting] flower_article)"
    by (simp add: run_def Let_def gate_accepting_def gate_rejecting_def create_result_def
        passed_def)
  with run_agrees_with_run_all_gates
         [of "[gate_accepting, gate_rejecting, gate_accepting]" flower_article]
  show ?thesis by simp
qed

section \<open>Properties of the topic-relevance gate\<close>

lemma count_list_le_filter: "P k \<Longrightarrow> count_list xs k \<le> length (filter P xs)"
  by (induction xs) auto

lemma exportacion_listed_twice:
  "count_list ALL_RELEVANT_KEYWORDS (''exportaci'' @ [CHR 0xF3] @ ''n'') = 2"
  by code_simp

text \<open>Every text that contains "exportaci\'on" reaches the minimum of two matches.\<close>

lemma exportacion_alone_passes:
  assumes "contains (lower (title article @ '' '' @ content article)) (''exportaci'' @ [CHR 0xF3] @ ''n'')"
  shows "passed (TopicRelevanceGate_check now article)"
proof -
  let ?text = "title article @ '' '' @ content article"
  from assms have "2 \<le> length (filter (\<lambda>keyword. contains (lower ?text) keyword) ALL_RELEVANT_KEYWORDS)"
    using count_list_le_filter [of "\<lambda>keyword. contains (lower ?text) keyword"
        "''exportaci'' @ [CHR 0xF3] @ ''n''" ALL_RELEVANT_KEYWORDS]
    by (simp only: exportacion_listed_twice)
  then have "\<not> fst (count_keyword_matches ?text) < MIN_KEYWORD_MATCHES"
    by (simp add: count_keyword_matches_def Let_def MIN_KEYWORD_MATCHES_def)
  then show ?thesis
    by (cases "count_keyword_matches ?text")
      (simp add: TopicRelevanceGate_check_def Let_def create_result_def passed_def)
qed

lemma flower_article_contains_exportacion:
  "contains (lower (title flower_article @ '' '' @ content flower_article))
     (''exportaci'' @ [CHR 0xF3] @ ''n'')"
  by code_simp

lemma flower_article_distinct_matches:
  "distinct_keyword_matches (title flower_article @ '' '' @ content flower_article) = 1"
  by code_simp

lemma flower_article_matches:
  "fst (count_keyword_matches (title flower_article @ '' '' @ content flower_article)) = 2"
  by code_simp

text \<open>
  C6. The gate counts the entries of the flattened lexicon that occur in the text, and
  "exportaci\'on" is entered under two categories. The article \<open>flower_article\<close> contains
  exactly one distinct lexicon keyword, the minimum is 2, and the gate passes it with a
  count of 2.
\<close>

theorem topic_gate_passes_single_keyword:
  "distinct_keyword_matches (title flower_article @ '' '' @ content flower_article) = 1
   \<and> MIN_KEYWORD_MATCHES = 2
   \<and> fst (count_keyword_matches (title flower_article @ '' '' @ content flower_article)) = 2
   \<and> passed (TopicRelevanceGate_check now flower_article)"
  using flower_article_distinct_matches flower_article_matches
    exportacion_alone_passes [OF flower_article_contains_exportacion, of now]
  by (simp only: MIN_KEYWORD_MATCHES_def simp_thms)

section \<open>Properties of the cost tracker\<close>

lemma min_of_nonempty: "xs \<noteq> [] \<Longrightarrow> \<exists>m. min_of xs = Inr m"
  by (cases xs) (simp_all add: min_of_def)

lemma max_of_nonempty: "xs \<noteq> [] \<Longrightarrow> \<exists>m. max_of xs = Inr m"
  by (cases xs) (simp_all add: max_of_def)

lemma generate_report_returns: "\<exists>report. generate_report today self date_arg = Inr report"
proof (cases "article_costs self = []")
  case True
  then show ?thesis by (simp add: generate_report_def)
next
  case False
  then have len: "length (article_costs self) \<noteq> 0" by simp
  from False obtain lo where lo: "min_of (map ac_cost_usd (article_costs self)) = Inr lo"
    using min_of_nonempty [of "map ac_cost_usd (article_costs self)"] by auto
  from False obtain hi where hi: "max_of (map ac_cost_usd (article_costs self)) = Inr hi"
    using max_of_nonempty [of "map ac_cost_usd (article_costs self)"] by auto
  from False len lo hi show ?thesis
    by (simp add: generate_report_def Let_def get_average_tokens_per_article_def
        get_average_cost_per_article_def truediv_def)
qed

text \<open>
  C8. With an empty per-article ledger, \<open>generate_report\<close> returns (it does not raise) a
  report whose article count, token totals, total cost, per-article averages, smallest and
  largest article cost and summed processing time are all zero.
\<close>

theorem generate_report_empty_ledger:
  assumes "article_costs self = []"
  shows "\<exists>report. generate_report today self date_arg = Inr report
           \<and> rep_total_articles report = 0
           \<and> rep_total_input_tokens report = 0
           \<and> rep_total_output_tokens report = 0
           \<and> rep_total_tokens report = 0
           \<and> rep_total_cost_usd report = 0
           \<and> rep_avg_tokens_per_article report = 0
           \<and> rep_avg_cost_per_article report = 0
           \<and> rep_min_cost_article report = 0
           \<and> rep_max_cost_article report = 0
           \<and> rep_processing_time_ms report = 0
           \<and> rep_cost_breakdown report = []"
  using assms by (simp add: generate_report_def new_CostReport_def)

theorem generate_report_empty_ledger_witness:
  "article_costs new_CostTracker = []
   \<and> generate_report ''2025-01-01'' new_CostTracker None
       = Inr \<lparr> rep_date = ''2025-01-01'', rep_total_articles = 0, rep_total_input_tokens = 0,
               rep_total_output_tokens = 0, rep_total_tokens = 0, rep_total_cost_usd = 0,
               rep_avg_tokens_per_article = 0, rep_avg_cost_per_article = 0,
               rep_min_cost_article = 0, rep_max_cost_article = 0,
               rep_processing_time_ms = 0, rep_cost_breakdown = [] \<rparr>"
proof -
  have h: "article_costs new_CostTracker = []"
    by (simp add: new_CostTracker_def)
  from generate_report_empty_ledger [OF h, of "''2025-01-01''" None] obtain report
    where "generate_report ''2025-01-01'' new_CostTracker None = Inr report"
    by blast
  with h show ?thesis
    by (simp add: generate_report_def new_CostReport_def)
qed

section \<open>Properties of the content-quality gate\<close>

lemma lower_char_isspace: "isspace c \<Longrightarrow> lower_char c = c"
  by (auto simp: isspace_def lower_char_def)

lemma lower_blank: "\<forall>c \<in> set s. isspace c \<Longrightarrow> lower s = s"
  by (simp add: lower_def lower_char_isspace map_idI)

lemma strip_Nil_iff: "strip s = [] \<longleftrightarrow> (\<forall>c \<in> set s. isspace c)"
proof
  assume "strip s = []"
  then have all: "\<forall>c \<in> set (dropWhile isspace s). isspace c"
    by (simp add: strip_def dropWhile_eq_Nil_conv)
  have "dropWhile isspace s = []"
  proof (rule ccontr)
    assume ne: "dropWhile isspace s \<noteq> []"
    then have "\<not> isspace (hd (dropWhile isspace s))" by (rule hd_dropWhile)
    moreover from ne have "hd (dropWhile isspace s) \<in> set (dropWhile isspace s)" by simp
    ultimately show False using all by blast
  qed
  then show "\<forall>c \<in> set s. isspace c" by (simp add: dropWhile_eq_Nil_conv)
next
  assume "\<forall>c \<in> set s. isspace c"
  then have "dropWhile isspace s = []" by (simp add: dropWhile_eq_Nil_conv)
  then show "strip s = []" by (simp only: strip_def rev.simps dropWhile.simps)
qed

lemma split_acc_Nil_iff: "split_acc cur s = [] \<longleftrightarrow> cur = [] \<and> (\<forall>c \<in> set s. isspace c)"
  by (induction s arbitrary: cur) auto

lemma split_Nil_iff: "split s = [] \<longleftrightarrow> (\<forall>c \<in> set s. isspace c)"
  by (simp add: split_def split_acc_Nil_iff)

lemma detect_spanish_ratio_blank:
  assumes "strip s = []"
  shows "detect_spanish_ratio s = 0"
proof -
  from assms have blank: "\<forall>c \<in> set s. isspace c" by (simp add: strip_Nil_iff)
  then have "split (lower s) = []" by (simp add: lower_blank split_Nil_iff)
  then show ?thesis by (simp add: detect_spanish_ratio_def Let_def)
qed

lemma flower_article_ratio: "detect_spanish_ratio (content flower_article) = 1"
  by code_simp

text \<open>
  C10. The content-quality gate never gives the reason "Missing content": a content whose
  language ratio reaches the required minimum has a word, so it is neither empty nor
  blank, and the last check cannot be the first to fail.
\<close>

theorem content_quality_never_missing_content:
  "gate_reason (ContentQualityGate_check format_2f now article) \<noteq> ''Missing content''
   \<and> (REQUIRED_SPANISH_RATIO \<le> detect_spanish_ratio (content article)
        \<longrightarrow> content article \<noteq> [] \<and> strip (content article) \<noteq> [])"
proof
  have unreachable: "strip (content article) \<noteq> []"
    if "\<not> detect_spanish_ratio (content article) < REQUIRED_SPANISH_RATIO"
  proof
    assume "strip (content article) = []"
    then have "detect_spanish_ratio (content article) = 0" by (rule detect_spanish_ratio_blank)
    with that show False by (simp add: REQUIRED_SPANISH_RATIO_def)
  qed
  have nonempty: "content article \<noteq> []" if "strip (content article) \<noteq> []"
    using that by (auto simp: strip_def)
  show "gate_reason (ContentQualityGate_check format_2f now article) \<noteq> ''Missing content''"
  proof (cases "detect_spanish_ratio (content article) < REQUIRED_SPANISH_RATIO")
    case True
    then show ?thesis
      by (simp add: ContentQualityGate_check_def Let_def create_result_def)
  next
    case False
    with unreachable have s: "strip (content article) \<noteq> []" by simp
    with nonempty have c: "content article \<noteq> []" by simp
    from False s c show ?thesis
      by (simp add: ContentQualityGate_check_def Let_def create_result_def)
  qed
  show "REQUIRED_SPANISH_RATIO \<le> detect_spanish_ratio (content article)
          \<longrightarrow> content article \<noteq> [] \<and> strip (content article) \<noteq> []"
    using unreachable nonempty by (simp add: not_less)
qed

theorem content_quality_never_missing_content_witness:
  "gate_reason (ContentQualityGate_check (\<lambda>ratio. ''1.00'') 0 flower_article) \<noteq> ''Missing content''
   \<and> REQUIRED_SPANISH_RATIO \<le> detect_spanish_ratio (content flower_article)
   \<and> content flower_article \<noteq> [] \<and> strip (content flower_article) \<noteq> []"
proof -
  have h: "REQUIRED_SPANISH_RATIO \<le> detect_spanish_ratio (content flower_article)"
    by (simp add: flower_article_ratio REQUIRED_SPANISH_RATIO_def)
  with content_quality_never_missing_content [of "\<lambda>ratio. ''1.00''" 0 flower_article]
  show ?thesis by simp
qed

section \<open>Properties of the chain executor\<close>

lemma stage_reply:
  "llm prompt s = (Inr (r, i, u, t), s') \<Longrightarrow>
   stage llm prompt parse s =
     (case parse r of Inl e \<Rightarrow> (Inl e, s') | Inr out \<Rightarrow> (Inr (out, i, u, t), s'))"
  by (simp add: stage_def)

lemma strip_Nil [simp]: "strip [] = []"
  by (simp add: strip_def)















lemma flower_step_1:
  "execute_step_1 (staged_llm reply_summary r2 r3 r4) flower_article 0
     = (Inr (flower_summary, 100, 50, 7), 1)"
  by (simp add: execute_step_1_def stage_def staged_llm_def parse_step_1_def get_def
      reply_summary_def empty_json_def flower_summary_def) code_simp

lemma flower_step_2:
  "execute_step_2 (staged_llm r1 reply_topics r3 r4) flower_article (so_summary flower_summary) 1
     = (Inr (flower_topics, 100, 50, 7), 2)"
  by (simp add: execute_step_2_def stage_def staged_llm_def parse_step_2_def get_def
      reply_topics_def empty_json_def flower_topics_def Let_def TopicCategory_of_def
      new_TopicExtractionOutput_def)

lemma flower_step_3:
  "execute_step_3 (staged_llm r1 r2 reply_impact_no_direction r4) flower_article
     (so_summary flower_summary) (te_topics flower_topics) empty_market 2
     = (Inr (neutral_impact, 100, 50, 7), 3)"
  by (simp add: execute_step_3_def stage_def staged_llm_def parse_step_3_def get_def
      reply_impact_no_direction_def empty_json_def neutral_impact_def
      ImpactDirection_of_def TimeHorizon_of_def new_ImpactAnalysisOutput_def)


lemma parse_step_1_missing_summary:
  "r_summary r = None \<Longrightarrow> parse_step_1 r = Inl ValidationError"
  by (simp add: parse_step_1_def new_SummarizationOutput_def get_def)

text \<open>
  C1 (as amended). A stage-1 reply without the summary aborts the whole chain with
  ValidationError. A stage-3 reply without the direction is read as NEUTRAL, and a
  stage-4 reply without the score is read as score 3; the absence of either is not a
  failure.
\<close>

theorem missing_summary_aborts_missing_direction_and_score_default:
  assumes "llm (STEP_1_SUMMARIZATION (title article) (content article)) s0 = (Inr (r1, i, u, t), s1)"
    and "r_summary r1 = None"
  shows "execute_full_chain llm article market_context s0 = (Inl ValidationError, s1)
       \<and> parse_step_3 (r3\<lparr>r_direction := None\<rparr>) = parse_step_3 (r3\<lparr>r_direction := Some ''NEUTRAL''\<rparr>)
       \<and> parse_step_4 (r4\<lparr>r_score := None\<rparr>) = parse_step_4 (r4\<lparr>r_score := Some 3\<rparr>)"
proof (intro conjI)
  have "parse_step_1 r1 = Inl ValidationError"
    using assms(2) by (rule parse_step_1_missing_summary)
  with stage_reply [where llm = llm and parse = parse_step_1, OF assms(1)]
  have "execute_step_1 llm article s0 = (Inl ValidationError, s1)"
    by (simp add: execute_step_1_def)
  then show "execute_full_chain llm article market_context s0 = (Inl ValidationError, s1)"
    by (simp add: execute_full_chain_def)
  show "parse_step_3 (r3\<lparr>r_direction := None\<rparr>) = parse_step_3 (r3\<lparr>r_direction := Some ''NEUTRAL''\<rparr>)"
    by (simp add: parse_step_3_def get_def ImpactDirection_of_def split: option.splits)
  show "parse_step_4 (r4\<lparr>r_score := None\<rparr>) = parse_step_4 (r4\<lparr>r_score := Some 3\<rparr>)"
    by (simp add: parse_step_4_def get_def)
qed

theorem missing_summary_aborts_missing_direction_and_score_default_witness:
  "staged_llm empty_json reply_topics reply_impact_no_direction reply_ranking_no_score
     (STEP_1_SUMMARIZATION (title flower_article) (content flower_article)) 0
     = (Inr (empty_json, 100, 50, 7), 1)
   \<and> r_summary empty_json = None
   \<and> execute_full_chain
        (staged_llm empty_json reply_topics reply_impact_no_direction reply_ranking_no_score)
        flower_article empty_market 0
      = (Inl ValidationError, 1)
   \<and> parse_step_3 reply_impact_no_direction = Inr neutral_impact
   \<and> parse_step_3 (reply_impact_no_direction\<lparr>r_direction := Some ''NEUTRAL''\<rparr>) = Inr neutral_impact"
proof -
  let ?llm = "staged_llm empty_json reply_topics reply_impact_no_direction reply_ranking_no_score"
  have h1: "?llm (STEP_1_SUMMARIZATION (title flower_article) (content flower_article)) 0
              = (Inr (empty_json, 100, 50, 7), 1)"
    by (simp add: staged_llm_def)
  have h2: "r_summary empty_json = None"
    by (simp add: empty_json_def)
  have same: "reply_impact_no_direction\<lparr>r_direction := None\<rparr> = reply_impact_no_direction"
    by (simp add: reply_impact_no_direction_def empty_json_def)
  have p3: "parse_step_3 reply_impact_no_direction = Inr neutral_impact"
    by (simp add: parse_step_3_def get_def reply_impact_no_direction_def empty_json_def
        neutral_impact_def ImpactDirection_of_def TimeHorizon_of_def
        new_ImpactAnalysisOutput_def)
  from missing_summary_aborts_missing_direction_and_score_default
         [where llm = ?llm and ?r3.0 = reply_impact_no_direction
            and market_context = empty_market, OF h1 h2]
  have "execute_full_chain ?llm flower_article empty_market 0 = (Inl ValidationError, 1)
      \<and> parse_step_3 (reply_impact_no_direction\<lparr>r_direction := None\<rparr>)
          = parse_step_3 (reply_impact_no_direction\<lparr>r_direction := Some ''NEUTRAL''\<rparr>)"
    by blast
  with h1 h2 same p3 show ?thesis by simp
qed

text \<open>
  C1 as stated fails: with a stage-3 reply that has no direction and a stage-4 reply
  that has no score, the chain completes and returns a record with direction NEUTRAL and
  score 3.
\<close>

theorem chain_completes_without_direction_and_score:
  "r_direction reply_impact_no_direction = None
   \<and> r_score reply_ranking_no_score = None
   \<and> (case fst (execute_full_chain
          (staged_llm reply_summary reply_topics reply_impact_no_direction reply_ranking_no_score)
          flower_article empty_market 0) of
        Inl e \<Rightarrow> False
      | Inr p \<Rightarrow> pn_impact_direction p = Some NEUTRAL \<and> pn_ranking_score p = Some 3
                 \<and> pn_ranking_category p = Some MODERATE
                 \<and> pn_ranking_trader_action p = Some ALERT)"
proof -
  let ?llm = "staged_llm reply_summary reply_topics reply_impact_no_direction reply_ranking_no_score"
  have 4: "execute_step_4 ?llm flower_article (so_summary flower_summary)
             (te_topics flower_topics) neutral_impact 3
           = (Inr (\<lparr> ro_score = 3, ro_category = MODERATE,
                     ro_justification = ''Efecto limitado sobre la tasa de cambio.'',
                     ro_trader_action = ALERT, ro_cot_reasoning = '''' \<rparr>, 100, 50, 7), 4)"
    by (simp add: execute_step_4_def stage_def staged_llm_def parse_step_4_def get_def
        reply_ranking_no_score_def empty_json_def score_to_category_def
        new_RankingOutput_def) code_simp
  have "r_direction reply_impact_no_direction = None" "r_score reply_ranking_no_score = None"
    by (simp_all add: reply_impact_no_direction_def reply_ranking_no_score_def empty_json_def)
  with flower_step_1 [of reply_topics reply_impact_no_direction reply_ranking_no_score]
    flower_step_2 [of reply_summary reply_impact_no_direction reply_ranking_no_score]
    flower_step_3 [of reply_summary reply_topics reply_ranking_no_score] 4
  show ?thesis
    by (simp add: execute_full_chain_def neutral_impact_def)
qed





section \<open>Properties of the processing phase\<close>

lemma chain_fails_at_stage_2:
  assumes "execute_step_1 llm article s0 = (Inr (o1, i1, u1, t1), s1)"
    and "execute_step_2 llm article (so_summary o1) s1 = (Inl e, s2)"
  shows "execute_full_chain llm article market_context s0 = (Inl e, s2)"
  using assms by (simp add: execute_full_chain_def)

text \<open>The tracker at the end of the loop has absorbed exactly the records the loop added.\<close>

lemma processing_loop_tracker:
  "processing_loop llm market articles (ps, tracker, s) = (ps', tracker', s') \<Longrightarrow>
   \<exists>new. ps' = ps @ new \<and> tracker' = foldl add_processed_article tracker new
         \<and> length new \<le> length articles"
proof (induction articles arbitrary: ps tracker s)
  case Nil
  then show ?case by simp
next
  case (Cons a rest)
  obtain x s1 where c: "execute_full_chain llm a market s = (x, s1)"
    by (cases "execute_full_chain llm a market s")
  show ?case
  proof (cases x)
    case (Inl e)
    with Cons.prems c
    have "processing_loop llm market rest (ps, tracker, s1) = (ps', tracker', s')" by simp
    from Cons.IH [OF this] obtain new where "ps' = ps @ new"
      "tracker' = foldl add_processed_article tracker new" "length new \<le> length rest"
      by blast
    then show ?thesis by auto
  next
    case (Inr p)
    with Cons.prems c
    have "processing_loop llm market rest (ps @ [p], add_processed_article tracker p, s1)
            = (ps', tracker', s')" by simp
    from Cons.IH [OF this] obtain new where new: "ps' = (ps @ [p]) @ new"
      "tracker' = foldl add_processed_article (add_processed_article tracker p) new"
      "length new \<le> length rest"
      by blast
    then have "ps' = ps @ (p # new) \<and> tracker' = foldl add_processed_article tracker (p # new)
        \<and> length (p # new) \<le> length (a # rest)" by simp
    then show ?thesis by blast
  qed
qed

text \<open>
  C4. When the chain of an article fails, at whatever stage, the loop of
  \<open>run_processing\<close> adds no record for that article, leaves the cost tracker (token
  totals, total cost, per-article ledger) as it was before that article, and goes on with
  the next article.
\<close>

theorem failed_chain_leaves_tracker_unchanged:
  assumes "execute_full_chain llm article market_snapshot s = (Inl e, s')"
  shows "processing_loop llm market_snapshot (article # rest) (processed_articles, cost_tracker, s)
           = processing_loop llm market_snapshot rest (processed_articles, cost_tracker, s')
       \<and> run_processing llm [article] market_snapshot (cost_tracker, s) = ([], cost_tracker, s')"
  using assms by (simp add: run_processing_def)

theorem failed_chain_leaves_tracker_unchanged_witness:
  "execute_full_chain
     (staged_llm reply_summary reply_topics_bad_confidence reply_impact_no_direction
        reply_ranking_no_score)
     flower_article empty_market 0
     = (Inl ValidationError, 2)
   \<and> run_processing
       (staged_llm reply_summary reply_topics_bad_confidence reply_impact_no_direction
          reply_ranking_no_score)
       [flower_article] empty_market (new_CostTracker, 0)
     = ([], new_CostTracker, 2)"
proof -
  let ?llm = "staged_llm reply_summary reply_topics_bad_confidence reply_impact_no_direction
        reply_ranking_no_score"
  have 2: "execute_step_2 ?llm flower_article (so_summary flower_summary) 1
             = (Inl ValidationError, 2)"
    by (simp add: execute_step_2_def stage_def staged_llm_def parse_step_2_def get_def
        reply_topics_bad_confidence_def empty_json_def Let_def TopicCategory_of_def
        new_TopicExtractionOutput_def)
  have h: "execute_full_chain ?llm flower_article empty_market 0 = (Inl ValidationError, 2)"
    using flower_step_1 [of reply_topics_bad_confidence reply_impact_no_direction
        reply_ranking_no_score] 2
    by (rule chain_fails_at_stage_2)
  from failed_chain_leaves_tracker_unchanged [where llm = ?llm, OF h, of "[]" "[]" new_CostTracker]
  have "run_processing ?llm [flower_article] empty_market (new_CostTracker, 0)
          = ([], new_CostTracker, 2)"
    by blast
  with h show ?thesis by simp
qed

end
